theory Spec2Isabelle
  imports Complex_Main "HOL-Library.Word" "HOL-Library.Char_ord" "HOL-Library.List_Lexorder"
    "HOL-Library.Product_Lexorder" "HOL-Library.Multiset"
begin

unbundle bit_operations_syntax

section \<open>JavaScript values\<close>

text \<open>
  The payment worker (\<^verbatim>\<open>src/Payment-Worker.js\<close>) handles JSON bodies, so its values are
  the JSON values together with \<^verbatim>\<open>undefined\<close>. A string is kept as the bytes of its UTF-8
  encoding, which is what \<^verbatim>\<open>TextEncoder\<close> hands to the digest; its UTF-16 code units, by
  which JavaScript compares strings, are computed from the bytes (\<open>utf16\<close> below). A string with
  an unpaired surrogate has no such encoding and is not covered. An object is the list of its
  own properties in insertion order; its keys are distinct.
\<close>

datatype jsnum = Finite rat | NaN | PosInfinity | NegInfinity

datatype jsval =
    JUndefined
  | JNull
  | JBool bool
  | JNum jsnum
  | JStr string
  | JArr "jsval list"
  | JObj "(string \<times> jsval) list"

type_synonym jsobject = "(string \<times> jsval) list"

datatype js_error = TypeError | SyntaxError | D1_ERROR | NetworkError

text \<open>\<^verbatim>\<open>params[key]\<close>, \<^verbatim>\<open>body.order_id\<close>: an own property, else \<^verbatim>\<open>undefined\<close>
  (none of the names this program reads is defined on \<^verbatim>\<open>Object.prototype\<close>).\<close>

definition get_prop :: "jsobject \<Rightarrow> string \<Rightarrow> jsval" where
  "get_prop ps k = (case map_of ps k of None \<Rightarrow> JUndefined | Some v \<Rightarrow> v)"

text \<open>Property access on any value: reading a property of \<^verbatim>\<open>null\<close> or
  \<^verbatim>\<open>undefined\<close> throws a TypeError; the other primitives and arrays have none of the
  names read here.\<close>

fun member :: "jsval \<Rightarrow> string \<Rightarrow> jsval option" where
  "member JUndefined k = None"
| "member JNull k = None"
| "member (JObj ps) k = Some (get_prop ps k)"
| "member v k = Some JUndefined"

fun truthy :: "jsval \<Rightarrow> bool" where
  "truthy JUndefined = False"
| "truthy JNull = False"
| "truthy (JBool b) = b"
| "truthy (JNum n) = (n \<noteq> Finite 0 \<and> n \<noteq> NaN)"
| "truthy (JStr s) = (s \<noteq> [])"
| "truthy (JArr xs) = True"
| "truthy (JObj ps) = True"

text \<open>\<^verbatim>\<open>a || b\<close>\<close>

definition or_else :: "jsval \<Rightarrow> jsval \<Rightarrow> jsval" where
  "or_else a b = (if truthy a then a else b)"

subsection \<open>Conversion to string\<close>

fun nat_to_dec :: "nat \<Rightarrow> string" where
  "nat_to_dec n = (if n < 10 then [''0123456789'' ! n]
                   else nat_to_dec (n div 10) @ [''0123456789'' ! (n mod 10)])"

declare nat_to_dec.simps [simp del]

text \<open>\<^verbatim>\<open>Number.prototype.toString\<close>: a finite number is the rational it denotes. An integer
  of at most \<open>2\<^sup>5\<^sup>3\<close> in absolute value is written in decimal, digit by digit; the rendering
  of every other finite number (the shortest digits that read back as the same double, with
  an exponent from \<open>10\<^sup>2\<^sup>1\<close> on) is the runtime's, the parameter \<open>render\<close>.\<close>

definition Number_toString :: "(rat \<Rightarrow> string) \<Rightarrow> jsnum \<Rightarrow> string" where
  "Number_toString render n =
     (case n of
        NaN \<Rightarrow> ''NaN''
      | PosInfinity \<Rightarrow> ''Infinity''
      | NegInfinity \<Rightarrow> ''-Infinity''
      | Finite r \<Rightarrow>
          if of_int \<lfloor>r\<rfloor> = r \<and> \<bar>r\<bar> \<le> 9007199254740992
          then (if r < 0 then ''-'' else []) @ nat_to_dec (nat \<bar>\<lfloor>r\<rfloor>\<bar>)
          else render r)"

text \<open>\<^verbatim>\<open>Array.prototype.join\<close> on strings.\<close>

fun join :: "string \<Rightarrow> string list \<Rightarrow> string" where
  "join sep [] = []"
| "join sep [x] = x"
| "join sep (x # y # ys) = x @ sep @ join sep (y # ys)"

text \<open>The conversion of a template literal, \<^verbatim>\<open>`${v}`\<close>. An array joins the conversions
  of its elements with a comma, \<^verbatim>\<open>null\<close> and \<^verbatim>\<open>undefined\<close> elements as the empty
  string. An object of a JSON body converts to \<^verbatim>\<open>[object Object]\<close>, unless it has an own
  property \<^verbatim>\<open>toString\<close>: that one is no function, and the conversion throws a TypeError
  (\<open>None\<close>).\<close>

fun ToString :: "(rat \<Rightarrow> string) \<Rightarrow> jsval \<Rightarrow> string option" where
  "ToString render JUndefined = Some ''undefined''"
| "ToString render JNull = Some ''null''"
| "ToString render (JBool b) = Some (if b then ''true'' else ''false'')"
| "ToString render (JNum n) = Some (Number_toString render n)"
| "ToString render (JStr s) = Some s"
| "ToString render (JArr xs) =
     map_option (join '','')
       (those (map (\<lambda>x. if x = JUndefined \<or> x = JNull then Some [] else ToString render x) xs))"
| "ToString render (JObj ps) =
     (if ''toString'' \<in> set (map fst ps) then None else Some ''[object Object]'')"

text \<open>\<^verbatim>\<open>String.prototype.toLowerCase\<close> on the ASCII letters, which is all that can make a
  string equal to a hexadecimal digest.\<close>

definition toLowerCase_char :: "char \<Rightarrow> char" where
  "toLowerCase_char c =
     (if 65 \<le> (of_char c :: nat) \<and> (of_char c :: nat) \<le> 90
      then char_of ((of_char c :: nat) + 32) else c)"

definition toLowerCase :: "string \<Rightarrow> string" where
  "toLowerCase s = map toLowerCase_char s"

definition toUpperCase_char :: "char \<Rightarrow> char" where
  "toUpperCase_char c =
     (if 97 \<le> (of_char c :: nat) \<and> (of_char c :: nat) \<le> 122
      then char_of ((of_char c :: nat) - 32) else c)"

definition toUpperCase :: "string \<Rightarrow> string" where
  "toUpperCase s = map toUpperCase_char s"

section \<open>The digest of the runtime\<close>

text \<open>\<^verbatim>\<open>crypto.subtle.digest('MD5', data)\<close> is the runtime's, not the repository's. It is
  MD5 as RFC 1321 defines it, on 32-bit values kept as natural numbers.\<close>

type_synonym byte = "8 word"

definition add32 :: "nat \<Rightarrow> nat \<Rightarrow> nat" where
  "add32 x y = (x + y) mod 4294967296"

definition rotl32 :: "nat \<Rightarrow> nat \<Rightarrow> nat" where
  "rotl32 s x = (x * 2 ^ s) mod 4294967296 + x div 2 ^ (32 - s)"

definition not32 :: "nat \<Rightarrow> nat" where
  "not32 x = 4294967295 - x"

definition md5_F :: "nat \<Rightarrow> nat \<Rightarrow> nat \<Rightarrow> nat" where
  "md5_F b c d = (b AND c) OR (not32 b AND d)"

definition md5_G :: "nat \<Rightarrow> nat \<Rightarrow> nat \<Rightarrow> nat" where
  "md5_G b c d = (d AND b) OR (not32 d AND c)"

definition md5_H :: "nat \<Rightarrow> nat \<Rightarrow> nat \<Rightarrow> nat" where
  "md5_H b c d = b XOR c XOR d"

definition md5_I :: "nat \<Rightarrow> nat \<Rightarrow> nat \<Rightarrow> nat" where
  "md5_I b c d = c XOR (b OR not32 d)"

type_synonym md5_state = "nat \<times> nat \<times> nat \<times> nat"

text \<open>One operation: \<open>k\<close> is the sine constant, \<open>s\<close> the rotation, \<open>g\<close> the index of the
  message word.\<close>

fun md5_step ::
  "(nat \<Rightarrow> nat \<Rightarrow> nat \<Rightarrow> nat) \<Rightarrow> nat list \<Rightarrow> nat \<times> nat \<times> nat \<Rightarrow> md5_state \<Rightarrow> md5_state" where
  "md5_step f m (k, s, g) (a, b, c, d) =
     (d, add32 b (rotl32 s (add32 (add32 (add32 (f b c d) a) k) (m ! g))), b, c)"

definition md5_tabF :: "(nat \<times> nat \<times> nat) list" where
  "md5_tabF =
    [(0xd76aa478, 7, 0), (0xe8c7b756, 12, 1), (0x242070db, 17, 2), (0xc1bdceee, 22, 3),
     (0xf57c0faf, 7, 4), (0x4787c62a, 12, 5), (0xa8304613, 17, 6), (0xfd469501, 22, 7),
     (0x698098d8, 7, 8), (0x8b44f7af, 12, 9), (0xffff5bb1, 17, 10), (0x895cd7be, 22, 11),
     (0x6b901122, 7, 12), (0xfd987193, 12, 13), (0xa679438e, 17, 14), (0x49b40821, 22, 15)]"

definition md5_tabG :: "(nat \<times> nat \<times> nat) list" where
  "md5_tabG =
    [(0xf61e2562, 5, 1), (0xc040b340, 9, 6), (0x265e5a51, 14, 11), (0xe9b6c7aa, 20, 0),
     (0xd62f105d, 5, 5), (0x02441453, 9, 10), (0xd8a1e681, 14, 15), (0xe7d3fbc8, 20, 4),
     (0x21e1cde6, 5, 9), (0xc33707d6, 9, 14), (0xf4d50d87, 14, 3), (0x455a14ed, 20, 8),
     (0xa9e3e905, 5, 13), (0xfcefa3f8, 9, 2), (0x676f02d9, 14, 7), (0x8d2a4c8a, 20, 12)]"

definition md5_tabH :: "(nat \<times> nat \<times> nat) list" where
  "md5_tabH =
    [(0xfffa3942, 4, 5), (0x8771f681, 11, 8), (0x6d9d6122, 16, 11), (0xfde5380c, 23, 14),
     (0xa4beea44, 4, 1), (0x4bdecfa9, 11, 4), (0xf6bb4b60, 16, 7), (0xbebfbc70, 23, 10),
     (0x289b7ec6, 4, 13), (0xeaa127fa, 11, 0), (0xd4ef3085, 16, 3), (0x04881d05, 23, 6),
     (0xd9d4d039, 4, 9), (0xe6db99e5, 11, 12), (0x1fa27cf8, 16, 15), (0xc4ac5665, 23, 2)]"

definition md5_tabI :: "(nat \<times> nat \<times> nat) list" where
  "md5_tabI =
    [(0xf4292244, 6, 0), (0x432aff97, 10, 7), (0xab9423a7, 15, 14), (0xfc93a039, 21, 5),
     (0x655b59c3, 6, 12), (0x8f0ccc92, 10, 3), (0xffeff47d, 15, 10), (0x85845dd1, 21, 1),
     (0x6fa87e4f, 6, 8), (0xfe2ce6e0, 10, 15), (0xa3014314, 15, 6), (0x4e0811a1, 21, 13),
     (0xf7537e82, 6, 4), (0xbd3af235, 10, 11), (0x2ad7d2bb, 15, 2), (0xeb86d391, 21, 9)]"

fun le32 :: "nat list \<Rightarrow> nat" where
  "le32 [] = 0"
| "le32 (b # bs) = b + 256 * le32 bs"

fun chunks :: "nat \<Rightarrow> 'a list \<Rightarrow> 'a list list" where
  "chunks n [] = []"
| "chunks n (x # xs) =
     (if n = 0 then [] else take n (x # xs) # chunks n (drop n (x # xs)))"

definition le_bytes4 :: "nat \<Rightarrow> nat list" where
  "le_bytes4 n = [n mod 256, n div 256 mod 256, n div 65536 mod 256, n div 16777216 mod 256]"

fun md5_add :: "md5_state \<Rightarrow> md5_state \<Rightarrow> md5_state" where
  "md5_add (a, b, c, d) (a', b', c', d') = (add32 a a', add32 b b', add32 c c', add32 d d')"

definition md5_rounds :: "nat list \<Rightarrow> md5_state \<Rightarrow> md5_state" where
  "md5_rounds m st =
     fold (md5_step md5_I m) md5_tabI (fold (md5_step md5_H m) md5_tabH
       (fold (md5_step md5_G m) md5_tabG (fold (md5_step md5_F m) md5_tabF st)))"

definition md5_block :: "nat list \<Rightarrow> md5_state \<Rightarrow> md5_state" where
  "md5_block blk st = md5_add st (md5_rounds (map le32 (chunks 4 blk)) st)"

fun zeros :: "nat \<Rightarrow> nat list" where
  "zeros n = (if n = 0 then [] else 0 # zeros (n - 1))"

declare zeros.simps [simp del]

definition md5_pad :: "nat list \<Rightarrow> nat list" where
  "md5_pad msg = msg @ [128] @ zeros ((119 - length msg mod 64) mod 64)
                   @ le_bytes4 ((8 * length msg) mod 4294967296)
                   @ le_bytes4 ((8 * length msg) div 4294967296 mod 4294967296)"

fun md5_out :: "md5_state \<Rightarrow> nat list" where
  "md5_out (a, b, c, d) = le_bytes4 a @ le_bytes4 b @ le_bytes4 c @ le_bytes4 d"

definition md5 :: "byte list \<Rightarrow> byte list" where
  "md5 msg = map of_nat (md5_out (fold md5_block (chunks 64 (md5_pad (map unat msg)))
                           (0x67452301, 0xefcdab89, 0x98badcfe, 0x10325476)))"

section \<open>The signature (\<^verbatim>\<open>generateSignature\<close>, \<^verbatim>\<open>verifySignature\<close>)\<close>

text \<open>\<^verbatim>\<open>new TextEncoder().encode\<close>: the bytes of the string.\<close>

definition encode :: "string \<Rightarrow> byte list" where
  "encode s = map of_char s"

text \<open>\<^verbatim>\<open>b.toString(16)\<close> of a byte, and \<^verbatim>\<open>padStart(2, '0')\<close>.\<close>

definition toString16 :: "byte \<Rightarrow> string" where
  "toString16 b = (if unat b < 16 then [''0123456789abcdef'' ! unat b]
                   else [''0123456789abcdef'' ! (unat b div 16),
                         ''0123456789abcdef'' ! (unat b mod 16)])"

definition padStart2 :: "string \<Rightarrow> string" where
  "padStart2 s = replicate (2 - length s) CHR ''0'' @ s"

text \<open>The secret comes from the environment: a string, or \<^verbatim>\<open>undefined\<close> when the
  variable is not set, which \<^verbatim>\<open>signStr + token\<close> appends as the text \<^verbatim>\<open>undefined\<close>.\<close>

definition env_text :: "string option \<Rightarrow> string" where
  "env_text token = (case token of None \<Rightarrow> ''undefined'' | Some t \<Rightarrow> t)"

text \<open>The UTF-16 code units of a string, from its UTF-8 bytes: one unit for a sequence of one,
  two or three bytes, a pair of surrogates for a sequence of four. A byte that starts no
  sequence (there is none in the encoding of a string) is given a value above every code
  unit.\<close>

fun utf16 :: "string \<Rightarrow> nat list" where
  "utf16 [] = []"
| "utf16 (c # cs) =
     (if (of_char c :: nat) < 128 then of_char c # utf16 cs
      else if 192 \<le> (of_char c :: nat) \<and> (of_char c :: nat) < 224 \<and> 1 \<le> length cs
      then (((of_char c :: nat) - 192) * 64 + of_char (cs ! 0) mod 64) # utf16 (drop 1 cs)
      else if 224 \<le> (of_char c :: nat) \<and> (of_char c :: nat) < 240 \<and> 2 \<le> length cs
      then (((of_char c :: nat) - 224) * 4096 + of_char (cs ! 0) mod 64 * 64
              + of_char (cs ! 1) mod 64) # utf16 (drop 2 cs)
      else if 240 \<le> (of_char c :: nat) \<and> (of_char c :: nat) < 248 \<and> 3 \<le> length cs
      then [55296 + ((((of_char c :: nat) - 240) * 262144 + of_char (cs ! 0) mod 64 * 4096
                       + of_char (cs ! 1) mod 64 * 64 + of_char (cs ! 2) mod 64) - 65536) div 1024,
            56320 + ((((of_char c :: nat) - 240) * 262144 + of_char (cs ! 0) mod 64 * 4096
                       + of_char (cs ! 1) mod 64 * 64 + of_char (cs ! 2) mod 64) - 65536) mod 1024]
           @ utf16 (drop 3 cs)
      else (65536 + of_char c) # utf16 cs)"

text \<open>\<^verbatim>\<open>Array.prototype.sort()\<close> with no comparator, on strings: the order of their UTF-16 code
  units. Two different strings never have the same code units; the second component orders
  only byte lists that encode no string.\<close>

definition js_sort :: "string list \<Rightarrow> string list" where
  "js_sort keys = map snd (sort (map (\<lambda>key. (utf16 key, key)) keys))"

text \<open>\<^verbatim>\<open>Object.keys(params).sort()\<close> sorts the own keys; what it returns does not depend on
  the order in which \<^verbatim>\<open>Object.keys\<close> lists them.\<close>

definition generateSignature ::
  "(rat \<Rightarrow> string) \<Rightarrow> jsobject \<Rightarrow> string option \<Rightarrow> js_error + string" where
  "generateSignature render params token =
     (let sortedKeys = js_sort (map fst params);
          kept = filter (\<lambda>key. key \<noteq> ''signature'' \<and> get_prop params key \<noteq> JUndefined
                                \<and> get_prop params key \<noteq> JStr []) sortedKeys
      in case those (map (\<lambda>key. map_option (\<lambda>v. key @ ''='' @ v)
                                  (ToString render (get_prop params key))) kept) of
           None \<Rightarrow> Inl TypeError
         | Some pairs \<Rightarrow>
             let signStr = join ''&'' pairs;
                 toSign = signStr @ env_text token;
                 data = encode toSign;
                 hashBuffer = md5 data;
                 hashHex = concat (map (\<lambda>b. padStart2 (toString16 b)) hashBuffer)
             in Inr (toLowerCase hashHex))"

text \<open>\<^verbatim>\<open>signature.toLowerCase()\<close> throws a TypeError unless \<open>signature\<close> is a string.\<close>

definition verifySignature ::
  "(rat \<Rightarrow> string) \<Rightarrow> jsobject \<Rightarrow> string option \<Rightarrow> jsval \<Rightarrow> js_error + bool" where
  "verifySignature render params token signature =
     (case generateSignature render params token of
        Inl e \<Rightarrow> Inl e
      | Inr expectedSig \<Rightarrow>
          (case signature of
             JStr s \<Rightarrow> Inr (expectedSig = toLowerCase s)
           | _ \<Rightarrow> Inl TypeError))"

section \<open>The runtime, the environment and the world\<close>

text \<open>What the worker calls but does not define is a parameter: the rendering of
  non-integer numbers, \<^verbatim>\<open>parseFloat\<close>, the outcome of an outbound \<^verbatim>\<open>fetch\<close> (the parsed
  JSON of the response, or the exception that \<^verbatim>\<open>fetch\<close> or \<^verbatim>\<open>response.json()\<close> throws)
  and the message text of an exception.\<close>

record fetch_request =
  fetch_url :: string
  fetch_method :: string
  fetch_headers :: "(string \<times> string) list"
  fetch_body :: jsval

record runtime =
  Number_render :: "rat \<Rightarrow> string"
  parseFloat :: "string \<Rightarrow> jsnum"
  fetch :: "fetch_request \<Rightarrow> js_error + jsval"
  error_message :: "js_error \<Rightarrow> string"

text \<open>The three statements the worker prepares on \<^verbatim>\<open>env.DB\<close>, and the binding itself:
  \<^verbatim>\<open>prepare(sql).bind(args).run()\<close> and \<^verbatim>\<open>.first()\<close>, which may throw.\<close>

datatype statement =
    INSERT_payment_records
  | UPDATE_payment_records
  | SELECT_payment_records_by_trade_id

record 'db d1 =
  d1_run :: "statement \<Rightarrow> jsval list \<Rightarrow> 'db \<Rightarrow> js_error + 'db"
  d1_first :: "statement \<Rightarrow> jsval list \<Rightarrow> 'db \<Rightarrow> js_error + jsval"

record 'db env =
  BEPUSDT_API_URL :: "string option"
  BEPUSDT_API_TOKEN :: "string option"
  MANAGER_NOTIFY_URL :: "string option"
  REDIRECT_BASE_URL :: "string option"
  DB :: "'db d1"

text \<open>An environment variable is truthy when it is set and not empty.\<close>

definition env_set :: "string option \<Rightarrow> bool" where
  "env_set v = (case v of None \<Rightarrow> False | Some s \<Rightarrow> s \<noteq> [])"

text \<open>The lines the worker writes to the console, by their place in the source:
  \<^verbatim>\<open>console.log\<close> of the callback received, and the \<^verbatim>\<open>console.error\<close> of each catch.\<close>

datatype console_entry =
    Received_callback jsval
  | Signature_check_failed
  | Notify_manager_failed js_error
  | Handle_callback_error js_error
  | Create_payment_error js_error
  | Save_record_failed js_error
  | Update_record_failed js_error

text \<open>Everything a handler can change: the database behind \<^verbatim>\<open>env.DB\<close>, the outbound
  requests issued so far, and the console.\<close>

record 'db world =
  db :: 'db
  outbox :: "fetch_request list"
  console :: "console_entry list"

definition log :: "console_entry \<Rightarrow> 'db world \<Rightarrow> 'db world" where
  "log e w = w\<lparr>console := console w @ [e]\<rparr>"

definition send :: "fetch_request \<Rightarrow> 'db world \<Rightarrow> 'db world" where
  "send req w = w\<lparr>outbox := outbox w @ [req]\<rparr>"

record request =
  req_origin :: string
  req_json :: "js_error + jsval"

datatype body = Text string | Json jsval

record response =
  resp_body :: body
  resp_status :: nat
  resp_headers :: "(string \<times> string) list"

definition Response :: "body \<Rightarrow> nat \<Rightarrow> (string \<times> string) list \<Rightarrow> response" where
  "Response b s h = \<lparr>resp_body = b, resp_status = s, resp_headers = h\<rparr>"

definition corsHeaders :: "(string \<times> string) list" where
  "corsHeaders = [(''Access-Control-Allow-Origin'', ''*''),
                  (''Content-Type'', ''application/json; charset=utf-8'')]"

text \<open>The texts of the responses, as the bytes of their UTF-8 encoding: the signature error of
  the callback, the missing parameters and the missing configuration of the creation, the
  default message of a refused creation, and the unknown order of the status query.\<close>

definition msg_signature_error :: string where
  "msg_signature_error = map char_of
     [0xE7, 0xAD, 0xBE, 0xE5, 0x90, 0x8D, 0xE9, 0x94, 0x99, 0xE8, 0xAF, 0xAF :: nat]"

definition msg_missing_parameters :: string where
  "msg_missing_parameters = map char_of
     [0xE7, 0xBC, 0xBA, 0xE5, 0xB0, 0x91, 0xE5, 0xBF, 0x85, 0xE8, 0xA6, 0x81, 0xE5, 0x8F, 0x82,
      0xE6, 0x95, 0xB0 :: nat]"

definition msg_channel_not_configured :: string where
  "msg_channel_not_configured = map char_of
     [0xE6, 0x94, 0xAF, 0xE4, 0xBB, 0x98, 0xE9, 0x80, 0x9A, 0xE9, 0x81, 0x93, 0xE6, 0x9C, 0xAA,
      0xE9, 0x85, 0x8D, 0xE7, 0xBD, 0xAE :: nat]"

definition msg_create_failed :: string where
  "msg_create_failed = map char_of
     [0xE5, 0x88, 0x9B, 0xE5, 0xBB, 0xBA, 0xE6, 0x94, 0xAF, 0xE4, 0xBB, 0x98, 0xE8, 0xAE, 0xA2,
      0xE5, 0x8D, 0x95, 0xE5, 0xA4, 0xB1, 0xE8, 0xB4, 0xA5 :: nat]"

definition msg_order_not_found :: string where
  "msg_order_not_found = map char_of
     [0xE8, 0xAE, 0xA2, 0xE5, 0x8D, 0x95, 0xE4, 0xB8, 0x8D, 0xE5, 0xAD, 0x98, 0xE5, 0x9C,
      0xA8 :: nat]"

text \<open>A field of a body that has been destructured: \<^verbatim>\<open>const { order_id, ... } = body\<close>
  throws on \<^verbatim>\<open>null\<close>, which the handlers test before they read a field.\<close>

definition field :: "jsval \<Rightarrow> string \<Rightarrow> jsval" where
  "field v k = (case member v k of None \<Rightarrow> JUndefined | Some x \<Rightarrow> x)"

definition nullish :: "jsval \<Rightarrow> bool" where
  "nullish v = (v = JNull \<or> v = JUndefined)"

section \<open>Database operations\<close>

definition savePaymentRecord :: "'db env \<Rightarrow> jsobject \<Rightarrow> 'db world \<Rightarrow> 'db world" where
  "savePaymentRecord env record w =
     (case d1_run (DB env) INSERT_payment_records
             [get_prop record ''order_id'', get_prop record ''trade_id'',
              get_prop record ''amount'', get_prop record ''actual_amount'',
              get_prop record ''trade_type'', get_prop record ''user_id'',
              get_prop record ''status'', get_prop record ''payment_url'',
              get_prop record ''token'', get_prop record ''created_at''] (db w) of
        Inl e \<Rightarrow> log (Save_record_failed e) w
      | Inr db' \<Rightarrow> w\<lparr>db := db'\<rparr>)"

definition updatePaymentRecord ::
  "'db env \<Rightarrow> jsval \<Rightarrow> jsobject \<Rightarrow> 'db world \<Rightarrow> 'db world" where
  "updatePaymentRecord env orderId updates w =
     (case d1_run (DB env) UPDATE_payment_records
             [get_prop updates ''status'', get_prop updates ''block_transaction_id'',
              get_prop updates ''actual_amount'', get_prop updates ''updated_at'',
              orderId] (db w) of
        Inl e \<Rightarrow> log (Update_record_failed e) w
      | Inr db' \<Rightarrow> w\<lparr>db := db'\<rparr>)"

definition getPaymentRecordByTradeId :: "'db env \<Rightarrow> string \<Rightarrow> 'db world \<Rightarrow> jsval" where
  "getPaymentRecordByTradeId env tradeId w =
     (case d1_first (DB env) SELECT_payment_records_by_trade_id [JStr tradeId] (db w) of
        Inl e \<Rightarrow> JNull
      | Inr result \<Rightarrow> result)"

section \<open>The callback (\<^verbatim>\<open>handlePaymentNotify\<close>)\<close>

text \<open>The object given to the verification: the seven fields the handler destructures from
  the body, by name.\<close>

definition verifyParams :: "jsval \<Rightarrow> jsobject" where
  "verifyParams body =
     [(''trade_id'', field body ''trade_id''),
      (''order_id'', field body ''order_id''),
      (''amount'', field body ''amount''),
      (''actual_amount'', field body ''actual_amount''),
      (''token'', field body ''token''),
      (''block_transaction_id'', field body ''block_transaction_id''),
      (''status'', field body ''status'')]"

text \<open>The request sent to the manager when the status is 2.\<close>

definition manager_request :: "string \<Rightarrow> jsval \<Rightarrow> fetch_request" where
  "manager_request managerNotifyUrl body =
     \<lparr>fetch_url = managerNotifyUrl, fetch_method = ''POST'',
      fetch_headers = [(''Content-Type'', ''application/json'')],
      fetch_body = JObj [(''order_id'', field body ''order_id''),
                         (''trade_id'', field body ''trade_id''),
                         (''amount'', field body ''amount''),
                         (''actual_amount'', field body ''actual_amount''),
                         (''status'', field body ''status''),
                         (''block_transaction_id'', field body ''block_transaction_id'')]\<rparr>"

text \<open>The body of the \<^verbatim>\<open>try\<close>: a response, or the exception that leaves it, and the world
  as it is then.\<close>

definition notify_try ::
  "runtime \<Rightarrow> 'db env \<Rightarrow> request \<Rightarrow> int \<Rightarrow> 'db world \<Rightarrow> (js_error + response) \<times> 'db world" where
  "notify_try rt env request now w0 =
     (case req_json request of
        Inl e \<Rightarrow> (Inl e, w0)
      | Inr body \<Rightarrow>
          let w1 = log (Received_callback body) w0 in
          if nullish body then (Inl TypeError, w1)
          else
            let order_id = field body ''order_id'';
                actual_amount = field body ''actual_amount'';
                block_transaction_id = field body ''block_transaction_id'';
                signature = field body ''signature'';
                status = field body ''status'';
                apiToken = BEPUSDT_API_TOKEN env
            in (case verifySignature (Number_render rt) (verifyParams body) apiToken signature of
                 Inl e \<Rightarrow> (Inl e, w1)
               | Inr isValid \<Rightarrow>
                   if \<not> isValid
                   then (Inr (Response (Text msg_signature_error) 400 []),
                         log Signature_check_failed w1)
                   else
                     let w2 = updatePaymentRecord env order_id
                                [(''status'', status),
                                 (''block_transaction_id'', or_else block_transaction_id (JStr [])),
                                 (''actual_amount'', actual_amount),
                                 (''updated_at'', JNum (Finite (of_int now)))] w1;
                         w3 = (if status = JNum (Finite 2)
                               then (case MANAGER_NOTIFY_URL env of
                                       None \<Rightarrow> w2
                                     | Some managerNotifyUrl \<Rightarrow>
                                         if managerNotifyUrl = [] then w2
                                         else (case fetch rt (manager_request managerNotifyUrl body) of
                                                 Inl e \<Rightarrow>
                                                   log (Notify_manager_failed e)
                                                     (send (manager_request managerNotifyUrl body) w2)
                                               | Inr r \<Rightarrow>
                                                   send (manager_request managerNotifyUrl body) w2))
                               else w2)
                     in (Inr (Response (Text ''ok'') 200 []), w3)))"

definition handlePaymentNotify ::
  "runtime \<Rightarrow> 'db env \<Rightarrow> request \<Rightarrow> int \<Rightarrow> 'db world \<Rightarrow> response \<times> 'db world" where
  "handlePaymentNotify rt env request now w =
     (case notify_try rt env request now w of
        (Inr resp, w') \<Rightarrow> (resp, w')
      | (Inl error, w') \<Rightarrow>
          (Response (Text ''error'') 500 [], log (Handle_callback_error error) w'))"

section \<open>The creation of an order (\<^verbatim>\<open>handleCreatePayment\<close>)\<close>

definition create_request :: "string \<Rightarrow> jsobject \<Rightarrow> fetch_request" where
  "create_request apiUrl payParams =
     \<lparr>fetch_url = apiUrl @ ''/api/v1/order/create-transaction'', fetch_method = ''POST'',
      fetch_headers = [(''Content-Type'', ''application/json'')],
      fetch_body = JObj payParams\<rparr>"

text \<open>The handler from the construction of \<^verbatim>\<open>payParams\<close> on, once the parameters and the
  configuration have passed their checks.\<close>

definition create_order ::
  "runtime \<Rightarrow> 'db env \<Rightarrow> request \<Rightarrow> int \<Rightarrow> jsval \<Rightarrow> 'db world
     \<Rightarrow> (js_error + response) \<times> 'db world" where
  "create_order rt env request now body w0 =
     (let order_id = field body ''order_id'';
          amount = field body ''amount'';
          trade_type = field body ''trade_type'';
          user_id = field body ''user_id'';
          apiUrl = BEPUSDT_API_URL env;
          apiToken = BEPUSDT_API_TOKEN env;
          notifyUrl = req_origin request @ ''/api/pay/notify'';
          redirectUrl = (if env_set (REDIRECT_BASE_URL env) then env_text (REDIRECT_BASE_URL env)
                         else req_origin request)
      in (case ToString (Number_render rt) amount of
            None \<Rightarrow> (Inl TypeError, w0)
          | Some amount_text \<Rightarrow>
         (case ToString (Number_render rt) order_id of
            None \<Rightarrow> (Inl TypeError, w0)
          | Some order_id_text \<Rightarrow>
              let payParams =
                    [(''order_id'', order_id),
                     (''amount'', JNum (parseFloat rt amount_text)),
                     (''notify_url'', JStr notifyUrl),
                     (''redirect_url'', JStr (redirectUrl @ ''?order_id='' @ order_id_text)),
                     (''trade_type'', or_else trade_type (JStr ''usdt.trc20''))]
              in (case generateSignature (Number_render rt) payParams apiToken of
                    Inl e \<Rightarrow> (Inl e, w0)
                  | Inr signature \<Rightarrow>
                      let req = create_request (env_text apiUrl)
                                  (payParams @ [(''signature'', JStr signature)]);
                          w1 = send req w0
                      in (case fetch rt req of
                            Inl e \<Rightarrow> (Inl e, w1)
                          | Inr result \<Rightarrow>
                              if nullish result then (Inl TypeError, w1)
                              else if field result ''status_code'' = JNum (Finite 200)
                              then
                                let data = field result ''data'' in
                                if nullish data then (Inl TypeError, w1)
                                else
                                  let w2 = savePaymentRecord env
                                        [(''order_id'', order_id),
                                         (''trade_id'', field data ''trade_id''),
                                         (''amount'', amount),
                                         (''actual_amount'', field data ''actual_amount''),
                                         (''trade_type'', or_else trade_type (JStr ''usdt.trc20'')),
                                         (''user_id'', or_else user_id (JStr [])),
                                         (''status'', JNum (Finite 1)),
                                         (''payment_url'', field data ''payment_url''),
                                         (''token'', field data ''token''),
                                         (''created_at'', JNum (Finite (of_int now)))] w1
                                  in (Inr (Response (Json (JObj
                                        [(''success'', JBool True),
                                         (''data'', JObj
                                            [(''trade_id'', field data ''trade_id''),
                                             (''order_id'', field data ''order_id''),
                                             (''amount'', field data ''amount''),
                                             (''actual_amount'', field data ''actual_amount''),
                                             (''token'', field data ''token''),
                                             (''payment_url'', field data ''payment_url''),
                                             (''expiration_time'', field data ''expiration_time'')])]))
                                        200 corsHeaders), w2)
                              else (Inr (Response (Json (JObj
                                      [(''success'', JBool False),
                                       (''error'', or_else (field result ''message'')
                                                     (JStr msg_create_failed))]))
                                      400 corsHeaders), w1))))))"

definition create_try ::
  "runtime \<Rightarrow> 'db env \<Rightarrow> request \<Rightarrow> int \<Rightarrow> 'db world \<Rightarrow> (js_error + response) \<times> 'db world" where
  "create_try rt env request now w0 =
     (case req_json request of
        Inl e \<Rightarrow> (Inl e, w0)
      | Inr body \<Rightarrow>
          if nullish body then (Inl TypeError, w0)
          else
            let order_id = field body ''order_id'';
                amount = field body ''amount''
            in if \<not> truthy order_id \<or> \<not> truthy amount
               then (Inr (Response (Json (JObj [(''success'', JBool False),
                                                (''error'', JStr msg_missing_parameters)]))
                            400 corsHeaders), w0)
               else
                 let apiUrl = BEPUSDT_API_URL env;
                     apiToken = BEPUSDT_API_TOKEN env
                 in if \<not> env_set apiUrl \<or> \<not> env_set apiToken
                    then (Inr (Response (Json (JObj [(''success'', JBool False),
                                                     (''error'', JStr msg_channel_not_configured)]))
                                 500 corsHeaders), w0)
                    else create_order rt env request now body w0)"

definition handleCreatePayment ::
  "runtime \<Rightarrow> 'db env \<Rightarrow> request \<Rightarrow> int \<Rightarrow> 'db world \<Rightarrow> response \<times> 'db world" where
  "handleCreatePayment rt env request now w =
     (case create_try rt env request now w of
        (Inr resp, w') \<Rightarrow> (resp, w')
      | (Inl error, w') \<Rightarrow>
          (Response (Json (JObj [(''success'', JBool False),
                                 (''error'', JStr (error_message rt error))]))
             500 corsHeaders,
           log (Create_payment_error error) w'))"

section \<open>The status query (\<^verbatim>\<open>handleQueryStatus\<close>)\<close>

definition query_try ::
  "runtime \<Rightarrow> 'db env \<Rightarrow> string \<Rightarrow> 'db world \<Rightarrow> js_error + response" where
  "query_try rt env tradeId w =
     (let record = getPaymentRecordByTradeId env tradeId w in
      if \<not> truthy record
      then Inr (Response (Json (JObj [(''success'', JBool False),
                                      (''error'', JStr msg_order_not_found)]))
                  404 corsHeaders)
      else if nullish record then Inl TypeError
      else Inr (Response (Json (JObj
                  [(''success'', JBool True),
                   (''data'', JObj
                      [(''order_id'', field record ''order_id''),
                       (''trade_id'', field record ''trade_id''),
                       (''status'', field record ''status''),
                       (''amount'', field record ''amount''),
                       (''actual_amount'', field record ''actual_amount''),
                       (''payment_url'', field record ''payment_url'')])]))
                  200 corsHeaders))"

definition handleQueryStatus ::
  "runtime \<Rightarrow> 'db env \<Rightarrow> string \<Rightarrow> 'db world \<Rightarrow> response \<times> 'db world" where
  "handleQueryStatus rt env tradeId w =
     (case query_try rt env tradeId w of
        Inr resp \<Rightarrow> (resp, w)
      | Inl error \<Rightarrow>
          (Response (Json (JObj [(''success'', JBool False),
                                 (''error'', JStr (error_message rt error))]))
             500 corsHeaders, w))"

section \<open>The order repository\<close>

text \<open>The table \<^verbatim>\<open>payment_records\<close> of \<^verbatim>\<open>src/database-schema.sql\<close>, a row as a record of
  its columns.\<close>

record payment_record =
  pr_id :: jsval
  pr_order_id :: jsval
  pr_trade_id :: jsval
  pr_amount :: jsval
  pr_actual_amount :: jsval
  pr_trade_type :: jsval
  pr_user_id :: jsval
  pr_status :: jsval
  pr_payment_url :: jsval
  pr_token :: jsval
  pr_block_transaction_id :: jsval
  pr_created_at :: jsval
  pr_updated_at :: jsval

type_synonym store = "payment_record list"

text \<open>Modelled from the spec: the database engine behind \<^verbatim>\<open>env.DB\<close> is not part of the
  repository. The spec takes it as "a relational store reachable by key lookups and single-row
  updates", where "every mutation is expressed as one atomic single-row write (insert-if-absent
  for creation, unconditional field overwrite for callback updates)". The three statements
  are given the meaning of their SQL text on the table above. A bound value is stored as it
  is bound, a boolean as 1 or 0; \<^verbatim>\<open>undefined\<close>, arrays and objects cannot be bound, and
  \<^verbatim>\<open>NULL\<close> equals nothing. The conversions of column affinity are not modelled.\<close>

fun to_sql :: "jsval \<Rightarrow> jsval option" where
  "to_sql JUndefined = None"
| "to_sql (JArr xs) = None"
| "to_sql (JObj ps) = None"
| "to_sql (JBool b) = Some (JNum (Finite (if b then 1 else 0)))"
| "to_sql v = Some v"

definition row_object :: "payment_record \<Rightarrow> jsval" where
  "row_object r =
     JObj [(''id'', pr_id r), (''order_id'', pr_order_id r), (''trade_id'', pr_trade_id r),
           (''amount'', pr_amount r), (''actual_amount'', pr_actual_amount r),
           (''trade_type'', pr_trade_type r), (''user_id'', pr_user_id r),
           (''status'', pr_status r), (''payment_url'', pr_payment_url r),
           (''token'', pr_token r), (''block_transaction_id'', pr_block_transaction_id r),
           (''created_at'', pr_created_at r), (''updated_at'', pr_updated_at r)]"

definition sql_update :: "jsval list \<Rightarrow> store \<Rightarrow> js_error + store" where
  "sql_update args st =
     (case those (map to_sql args) of
        Some [status, block_transaction_id, actual_amount, updated_at, order_id] \<Rightarrow>
          Inr (map (\<lambda>r. if order_id \<noteq> JNull \<and> pr_order_id r = order_id
                         then r\<lparr>pr_status := status,
                                pr_block_transaction_id := block_transaction_id,
                                pr_actual_amount := actual_amount,
                                pr_updated_at := updated_at\<rparr>
                         else r) st)
      | _ \<Rightarrow> Inl D1_ERROR)"

definition sql_insert :: "jsval list \<Rightarrow> store \<Rightarrow> js_error + store" where
  "sql_insert args st =
     (case those (map to_sql args) of
        Some [order_id, trade_id, amount, actual_amount, trade_type, user_id, status,
              payment_url, token, created_at] \<Rightarrow>
          if order_id = JNull \<or> amount = JNull \<or> created_at = JNull
             \<or> order_id \<in> set (map pr_order_id st)
          then Inl D1_ERROR
          else Inr (st @ [\<lparr>pr_id = JNum (Finite (of_nat (Suc (length st)))),
                           pr_order_id = order_id, pr_trade_id = trade_id, pr_amount = amount,
                           pr_actual_amount = actual_amount, pr_trade_type = trade_type,
                           pr_user_id = user_id, pr_status = status,
                           pr_payment_url = payment_url, pr_token = token,
                           pr_block_transaction_id = JNull, pr_created_at = created_at,
                           pr_updated_at = JNull\<rparr>])
      | _ \<Rightarrow> Inl D1_ERROR)"

definition sql_select_by_trade_id :: "jsval list \<Rightarrow> store \<Rightarrow> js_error + jsval" where
  "sql_select_by_trade_id args st =
     (case those (map to_sql args) of
        Some [trade_id] \<Rightarrow>
          (case find (\<lambda>r. trade_id \<noteq> JNull \<and> pr_trade_id r = trade_id) st of
             None \<Rightarrow> Inr JNull
           | Some r \<Rightarrow> Inr (row_object r))
      | _ \<Rightarrow> Inl D1_ERROR)"

definition payment_db :: "store d1" where
  "payment_db =
     \<lparr>d1_run = (\<lambda>stmt args st.
                  case stmt of
                    INSERT_payment_records \<Rightarrow> sql_insert args st
                  | UPDATE_payment_records \<Rightarrow> sql_update args st
                  | SELECT_payment_records_by_trade_id \<Rightarrow>
                      map_sum id (\<lambda>r. st) (sql_select_by_trade_id args st)),
       d1_first = (\<lambda>stmt args st.
                  case stmt of
                    SELECT_payment_records_by_trade_id \<Rightarrow> sql_select_by_trade_id args st
                  | _ \<Rightarrow> Inr JNull)\<rparr>"

section \<open>Notions of the specification\<close>

text \<open>The signer as the specification words it, for a given order of the names: leave out
  the signature field and every field whose value is absent or empty, sort the names that
  remain, join \<open>name=value\<close> with \<open>&\<close>, append the secret, hash, and write the digest in
  lowercase hexadecimal. Where a value that remains has no conversion to a string there is no
  digest. The specification sorts the names bytewise (\<open>sign_spec\<close>).\<close>

definition absent_or_empty :: "jsval \<Rightarrow> bool" where
  "absent_or_empty v = (v = JUndefined \<or> v = JStr [])"

definition fields_by :: "(string list \<Rightarrow> string list) \<Rightarrow> jsobject \<Rightarrow> string list" where
  "fields_by order params =
     order (filter (\<lambda>name. name \<noteq> ''signature'' \<and> \<not> absent_or_empty (get_prop params name))
              (map fst params))"

definition lower_hex :: "byte \<Rightarrow> string" where
  "lower_hex b = [''0123456789abcdef'' ! (unat b div 16), ''0123456789abcdef'' ! (unat b mod 16)]"

definition sign_by ::
  "(string list \<Rightarrow> string list) \<Rightarrow> (rat \<Rightarrow> string) \<Rightarrow> jsobject \<Rightarrow> string
     \<Rightarrow> js_error + string" where
  "sign_by order render params secret =
     (if None \<in> set (map (\<lambda>name. ToString render (get_prop params name))
                       (fields_by order params))
      then Inl TypeError
      else Inr (concat (map lower_hex (md5 (encode
             (join ''&'' (map (\<lambda>name. name @ ''='' @ the (ToString render (get_prop params name)))
                            (fields_by order params)) @ secret))))))"

definition sign_spec :: "(rat \<Rightarrow> string) \<Rightarrow> jsobject \<Rightarrow> string \<Rightarrow> js_error + string" where
  "sign_spec render params secret = sign_by sort render params secret"

text \<open>A name of ASCII characters only, as all names of the protocol are.\<close>

definition ascii_name :: "string \<Rightarrow> bool" where
  "ascii_name s = list_all (\<lambda>c. (of_char c :: nat) < 128) s"

text \<open>The signature of a callback verifies when the handler's call of \<^verbatim>\<open>verifySignature\<close>
  returns \<^verbatim>\<open>true\<close>.\<close>

definition verifies :: "runtime \<Rightarrow> 'db env \<Rightarrow> jsval \<Rightarrow> bool" where
  "verifies rt env body =
     (\<not> nullish body \<and>
      verifySignature (Number_render rt) (verifyParams body) (BEPUSDT_API_TOKEN env)
        (field body ''signature'') = Inr True)"

text \<open>The values the handler binds to the \<^verbatim>\<open>UPDATE\<close> statement, in the order of its
  placeholders.\<close>

definition update_args :: "jsval \<Rightarrow> int \<Rightarrow> jsval list" where
  "update_args body now =
     [field body ''status'', or_else (field body ''block_transaction_id'') (JStr []),
      field body ''actual_amount'', JNum (Finite (of_int now)), field body ''order_id'']"


definition not_found :: response where
  "not_found = Response (Json (JObj [(''success'', JBool False),
                                     (''error'', JStr msg_order_not_found)])) 404 corsHeaders"

definition missing_parameters :: response where
  "missing_parameters = Response (Json (JObj [(''success'', JBool False),
                                              (''error'', JStr msg_missing_parameters)]))
                          400 corsHeaders"

section \<open>A scenario\<close>

text \<open>The order and the callback of the specification's scenarios A to C, with the amount 10,
  under the secret \<^verbatim>\<open>secret\<close>: the fields of the callback with a given status, the callback
  that reports completion (status 2) and a callback that reports the order as created
  (status 1), each with its MD5 signature, the completion callback without a signature and with
  one more field, and the order as stored. The example runtime has no network (every
  \<^verbatim>\<open>fetch\<close> throws); the scenario holds no number that is not an integer, so the rendering of
  those is never used.\<close>

definition example_runtime :: runtime where
  "example_runtime =
     \<lparr>Number_render = (\<lambda>r. ''0.5''), parseFloat = (\<lambda>s. NaN),
      fetch = (\<lambda>req. Inl NetworkError), error_message = (\<lambda>e. ''failed'')\<rparr>"

definition example_env :: "store env" where
  "example_env =
     \<lparr>BEPUSDT_API_URL = Some ''https://gateway.example'',
      BEPUSDT_API_TOKEN = Some ''secret'',
      MANAGER_NOTIFY_URL = Some ''https://manager.example/api/payment/notify'',
      REDIRECT_BASE_URL = None,
      DB = payment_db\<rparr>"

definition callback_fields :: "jsval \<Rightarrow> jsobject" where
  "callback_fields status =
     [(''trade_id'', JStr ''T1''), (''order_id'', JStr ''ORD1001''),
      (''amount'', JNum (Finite 10)), (''actual_amount'', JStr ''10.50''),
      (''token'', JStr ''tok1''), (''block_transaction_id'', JStr ''0xabc''),
      (''status'', status)]"

definition callback_completed :: jsval where
  "callback_completed =
     JObj (callback_fields (JNum (Finite 2))
           @ [(''signature'', JStr ''6d04ca69051da2f65c62bd8b0963dc2e'')])"

definition callback_created :: jsval where
  "callback_created =
     JObj (callback_fields (JNum (Finite 1))
           @ [(''signature'', JStr ''710ddfb5ba191b41fc4ddf30fbefde19'')])"

definition callback_unsigned :: jsval where
  "callback_unsigned = JObj (callback_fields (JNum (Finite 2)))"


text \<open>An object with the two keys U+FF71 and U+1F600: the first sorts first by bytes, the
  second by code units.\<close>

definition exotic_fields :: jsobject where
  "exotic_fields =
     [([CHR 0xEF, CHR 0xBD, CHR 0xB1], JStr ''1''),
      ([CHR 0xF0, CHR 0x9F, CHR 0x98, CHR 0x80], JStr ''2'')]"

definition stored_order :: "jsval \<Rightarrow> jsval \<Rightarrow> payment_record" where
  "stored_order status updated_at =
     \<lparr>pr_id = JNum (Finite 1), pr_order_id = JStr ''ORD1001'', pr_trade_id = JStr ''T1'',
      pr_amount = JNum (Finite 10), pr_actual_amount = JStr ''10.50'',
      pr_trade_type = JStr ''usdt.trc20'', pr_user_id = JStr [], pr_status = status,
      pr_payment_url = JStr ''https://pay/T1'', pr_token = JStr ''tok1'',
      pr_block_transaction_id = JStr ''0xabc'', pr_created_at = JNum (Finite 500),
      pr_updated_at = updated_at\<rparr>"

definition example_world :: "store \<Rightarrow> store world" where
  "example_world st = \<lparr>db = st, outbox = [], console = []\<rparr>"

definition post :: "jsval \<Rightarrow> request" where
  "post b = \<lparr>req_origin = ''https://pay.example'', req_json = Inr b\<rparr>"

section \<open>Evaluation of the scenario\<close>

lemmas md5_eval = md5_def md5_pad_def md5_block_def md5_rounds_def le_bytes4_def zeros.simps
  md5_tabF_def md5_tabG_def md5_tabH_def md5_tabI_def
  md5_F_def md5_G_def md5_H_def md5_I_def add32_def rotl32_def not32_def encode_def
  padStart2_def toString16_def

lemmas sign_eval = generateSignature_def js_sort_def callback_fields_def get_prop_def
  Number_toString_def nat_to_dec.simps Let_def env_text_def toLowerCase_def toLowerCase_char_def

lemmas body_eval = callback_fields_def field_def get_prop_def nullish_def

text \<open>The digest of the runtime on a test vector of RFC 1321.\<close>

lemma md5_abc:
  "concat (map (\<lambda>b. padStart2 (toString16 b)) (md5 (encode ''abc'')))
     = ''900150983cd24fb0d6963f7d28e17f72''"
  by (simp add: md5_eval)

text \<open>The digests of the two callbacks: MD5 of
  \<^verbatim>\<open>actual_amount=10.50&amount=10&block_transaction_id=0xabc&order_id=ORD1001&status=2&token=tok1&trade_id=T1secret\<close>
  and of the same text with \<^verbatim>\<open>status=1\<close>.\<close>

lemma digest_completed:
  "generateSignature render (callback_fields (JNum (Finite 2))) (Some ''secret'')
     = Inr ''6d04ca69051da2f65c62bd8b0963dc2e''"
  by (simp add: sign_eval md5_eval)

lemma digest_created:
  "generateSignature render (callback_fields (JNum (Finite 1))) (Some ''secret'')
     = Inr ''710ddfb5ba191b41fc4ddf30fbefde19''"
  by (simp add: sign_eval md5_eval)

lemma verifyParams_completed:
  "verifyParams callback_completed = callback_fields (JNum (Finite 2))"
  by (simp add: verifyParams_def callback_completed_def body_eval)

lemma verifyParams_created:
  "verifyParams callback_created = callback_fields (JNum (Finite 1))"
  by (simp add: verifyParams_def callback_created_def body_eval)

lemma verifyParams_unsigned:
  "verifyParams callback_unsigned = callback_fields (JNum (Finite 2))"
  by (simp add: verifyParams_def callback_unsigned_def body_eval)


lemma verifies_completed: "verifies rt example_env callback_completed"
  by (simp add: verifies_def verifyParams_completed verifySignature_def example_env_def
        digest_completed)
     (simp add: callback_completed_def body_eval toLowerCase_def toLowerCase_char_def)

lemma verifies_created: "verifies rt example_env callback_created"
  by (simp add: verifies_def verifyParams_created verifySignature_def example_env_def
        digest_created)
     (simp add: callback_created_def body_eval toLowerCase_def toLowerCase_char_def)


section \<open>The signer\<close>

lemma those_map_option:
  "those (map (\<lambda>k. map_option (f k) (g k)) ks) =
     (if None \<in> set (map g ks) then None else Some (map (\<lambda>k. f k (the (g k))) ks))"
  by (induction ks) (auto split: option.splits)

lemma hex_digit_lower:
  assumes "n < 16"
  shows "toLowerCase_char (''0123456789abcdef'' ! n) = ''0123456789abcdef'' ! n"
proof -
  have "\<forall>c \<in> set ''0123456789abcdef''. toLowerCase_char c = c"
    by (simp add: toLowerCase_char_def)
  moreover have "''0123456789abcdef'' ! n \<in> set ''0123456789abcdef''"
    using assms by (intro nth_mem) simp
  ultimately show ?thesis by blast
qed

lemma unat_byte_div: "unat (b :: byte) div 16 < 16"
proof -
  have "unat b < 256" using unsigned_less [of b] by simp
  then show ?thesis by simp
qed

lemma padStart2_toString16: "padStart2 (toString16 b) = lower_hex b"
  by (simp add: padStart2_def toString16_def lower_hex_def)

lemma toLowerCase_lower_hex: "toLowerCase (lower_hex b) = lower_hex b"
  by (simp add: toLowerCase_def lower_hex_def hex_digit_lower unat_byte_div)

lemma toLowerCase_concat: "toLowerCase (concat xss) = concat (map toLowerCase xss)"
  by (induction xss) (simp_all add: toLowerCase_def)

lemma toLowerCase_hex: "toLowerCase (concat (map lower_hex bs)) = concat (map lower_hex bs)"
  by (simp add: toLowerCase_concat toLowerCase_lower_hex comp_def)

lemma js_sort_mset: "mset ks = mset ks' \<Longrightarrow> js_sort ks = js_sort ks'"
proof -
  assume "mset ks = mset ks'"
  then have "mset (map (\<lambda>key. (utf16 key, key)) ks) = mset (map (\<lambda>key. (utf16 key, key)) ks')"
    by simp
  then have "sort (map (\<lambda>key. (utf16 key, key)) ks) = sort (map (\<lambda>key. (utf16 key, key)) ks')"
    by (simp add: properties_for_sort)
  then show ?thesis by (simp add: js_sort_def)
qed

lemma filter_js_sort: "filter P (js_sort ks) = js_sort (filter P ks)"
proof -
  have "filter P (map snd xs) = map snd (filter (P \<circ> snd) xs)" for xs :: "(nat list \<times> string) list"
    by (simp add: filter_map)
  moreover have "filter (P \<circ> snd) (map (\<lambda>key. (utf16 key, key)) ks)
                   = map (\<lambda>key. (utf16 key, key)) (filter P ks)"
    by (simp add: filter_map comp_def)
  ultimately show ?thesis
    by (simp add: js_sort_def filter_sort)
qed

text \<open>On ASCII names the order of the code units is the order of the bytes.\<close>

lemma utf16_ascii: "ascii_name s \<Longrightarrow> utf16 s = map of_char s"
  by (induction s) (simp_all add: ascii_name_def)

lemma codes_less: "(map of_char xs :: nat list) < map of_char ys \<longleftrightarrow> xs < ys"
proof (induction xs arbitrary: ys)
  case Nil
  then show ?case by (cases ys) simp_all
next
  case (Cons x xs)
  then show ?case by (cases ys) (auto simp: less_char_def)
qed

lemma key_mono:
  assumes "ascii_name a" "ascii_name b" "a \<le> b"
  shows "(utf16 a, a) \<le> (utf16 b, b)"
  using assms by (auto simp: utf16_ascii codes_less less_eq_prod_def le_less)

lemma js_sort_ascii:
  assumes "list_all ascii_name ks"
  shows "js_sort ks = sort ks"
proof -
  let ?g = "\<lambda>key. (utf16 key, key)"
  have a: "\<forall>k \<in> set (sort ks). ascii_name k" using assms by (simp add: list_all_iff)
  have "sorted_wrt (\<lambda>x y. ?g x \<le> ?g y) (sort ks)"
  proof (rule sorted_wrt_mono_rel [of "sort ks" "(\<le>)"])
    fix x y assume "x \<in> set (sort ks)" "y \<in> set (sort ks)" "x \<le> y"
    then show "?g x \<le> ?g y" using a key_mono by blast
  next
    show "sorted_wrt (\<le>) (sort ks)" using sorted_sort [of ks] by simp
  qed
  then have 1: "sorted (map ?g (sort ks))" by (simp only: sorted_map)
  have 2: "mset (map ?g (sort ks)) = mset (map ?g ks)" by simp
  have "sort (map ?g ks) = map ?g (sort ks)"
    using 2 1 by (rule properties_for_sort)
  then show ?thesis by (simp add: js_sort_def comp_def)
qed

lemma fields_by_ascii:
  assumes "list_all ascii_name (map fst params)"
  shows "fields_by js_sort params = fields_by sort params"
proof -
  have "list_all ascii_name (filter P (map fst params))" for P
    using assms by (auto simp: list_all_iff)
  then show ?thesis by (simp add: fields_by_def js_sort_ascii)
qed

text \<open>C5: for every parameter object and secret, \<^verbatim>\<open>generateSignature\<close> returns what the
  specification's signer returns when the names are sorted by their UTF-16 code units: the
  fields without the signature and without absent or empty values, sorted, joined as
  \<open>name=value\<close> with \<open>&\<close>, followed by the secret, hashed, in lowercase hexadecimal. Where all
  names are ASCII that is the bytewise order, and the result is the specification's.\<close>

theorem generateSignature_refines_reference:
  "generateSignature render params (Some secret) = sign_by js_sort render params secret
   \<and> (list_all ascii_name (map fst params) \<longrightarrow>
        generateSignature render params (Some secret) = sign_spec render params secret)"
proof -
  let ?P = "\<lambda>key. key \<noteq> ''signature'' \<and> get_prop params key \<noteq> JUndefined
                    \<and> get_prop params key \<noteq> JStr []"
  have kept: "filter ?P (js_sort (map fst params)) = fields_by js_sort params"
    by (simp add: fields_by_def absent_or_empty_def filter_js_sort)
  have 1: "generateSignature render params (Some secret) = sign_by js_sort render params secret"
    unfolding generateSignature_def sign_by_def Let_def kept
    by (simp add: those_map_option padStart2_toString16 toLowerCase_hex env_text_def comp_def)
  have 2: "sign_by js_sort render params secret = sign_spec render params secret"
    if "list_all ascii_name (map fst params)"
    using fields_by_ascii [OF that] by (simp add: sign_spec_def sign_by_def)
  show ?thesis using 1 2 by simp
qed

theorem generateSignature_refines_reference_witness:
  "list_all ascii_name (map fst (callback_fields (JNum (Finite 2))))
   \<and> sign_by js_sort (Number_render example_runtime) (callback_fields (JNum (Finite 2))) ''secret''
       = Inr ''6d04ca69051da2f65c62bd8b0963dc2e''
   \<and> sign_spec (Number_render example_runtime) (callback_fields (JNum (Finite 2))) ''secret''
       = Inr ''6d04ca69051da2f65c62bd8b0963dc2e''"
proof -
  have a: "list_all ascii_name (map fst (callback_fields (JNum (Finite 2))))"
    by (simp add: callback_fields_def ascii_name_def)
  note t = generateSignature_refines_reference
             [of "Number_render example_runtime" "callback_fields (JNum (Finite 2))" "''secret''"]
  have e1: "sign_by js_sort (Number_render example_runtime) (callback_fields (JNum (Finite 2)))
              ''secret''
            = generateSignature (Number_render example_runtime) (callback_fields (JNum (Finite 2)))
                (Some ''secret'')"
    using conjunct1 [OF t] by (rule sym)
  have e2: "sign_spec (Number_render example_runtime) (callback_fields (JNum (Finite 2)))
              ''secret''
            = generateSignature (Number_render example_runtime) (callback_fields (JNum (Finite 2)))
                (Some ''secret'')"
    using mp [OF conjunct2 [OF t] a] by (rule sym)
  show ?thesis
    unfolding e1 e2 using a digest_completed [of "Number_render example_runtime"] by simp
qed

text \<open>The two keys U+FF71 and U+1F600 with the values 1 and 2: the code signs
  \<^verbatim>\<open>U+1F600=2&U+FF71=1secret\<close>, the bytewise order of the specification gives
  \<^verbatim>\<open>U+FF71=1&U+1F600=2secret\<close>.\<close>

theorem bytewise_order_differs:
  "generateSignature (Number_render example_runtime) exotic_fields (Some ''secret'')
     = Inr ''08ee62a659f1ad4b865f693054b1267a''
   \<and> sign_spec (Number_render example_runtime) exotic_fields ''secret''
     = Inr ''fb01018f44a85569fa8b0c517910a944''"
proof -
  have 1: "generateSignature (Number_render example_runtime) exotic_fields (Some ''secret'')
     = Inr ''08ee62a659f1ad4b865f693054b1267a''"
    by (simp add: sign_eval md5_eval exotic_fields_def)
  have 2: "sign_spec (Number_render example_runtime) exotic_fields ''secret''
     = Inr ''fb01018f44a85569fa8b0c517910a944''"
    by (simp add: sign_spec_def sign_by_def fields_by_def absent_or_empty_def lower_hex_def
          get_prop_def md5_eval exotic_fields_def)
  show ?thesis using 1 2 by simp
qed

lemma get_prop_perm:
  assumes "distinct (map fst ps)" and "mset qs = mset ps"
  shows "get_prop qs = get_prop ps"
proof -
  have "mset (map fst qs) = mset (map fst ps)" using assms(2) by simp
  then have dq: "distinct (map fst qs)" using assms(1) by (metis mset_eq_imp_distinct_iff)
  have "set qs = set ps" using assms(2) by (metis mset_eq_setD)
  then have "map_of qs = map_of ps" using assms(1) dq by (simp add: map_of_inject_set)
  then show ?thesis by (simp add: get_prop_def fun_eq_iff)
qed

text \<open>C6: the digest does not depend on the order in which the fields were inserted: two
  objects with the same properties, listed in any two orders, have the same signature.\<close>

theorem generateSignature_insertion_order:
  assumes "distinct (map fst ps)" and "mset qs = mset ps"
  shows "generateSignature render qs token = generateSignature render ps token"
proof -
  have keys: "js_sort (map fst qs) = js_sort (map fst ps)"
  proof -
    have "mset (map fst qs) = mset (map fst ps)" using assms(2) by simp
    then show ?thesis by (rule js_sort_mset)
  qed
  show ?thesis
    unfolding generateSignature_def keys get_prop_perm [OF assms] ..
qed

theorem generateSignature_insertion_order_witness:
  "distinct (map fst (callback_fields (JNum (Finite 2))))
   \<and> mset (rev (callback_fields (JNum (Finite 2)))) = mset (callback_fields (JNum (Finite 2)))
   \<and> generateSignature (Number_render example_runtime) (rev (callback_fields (JNum (Finite 2))))
        (Some ''secret'')
       = generateSignature (Number_render example_runtime) (callback_fields (JNum (Finite 2)))
           (Some ''secret'')"
proof -
  have d: "distinct (map fst (callback_fields (JNum (Finite 2))))"
    by (simp add: callback_fields_def)
  have m: "mset (rev (callback_fields (JNum (Finite 2)))) = mset (callback_fields (JNum (Finite 2)))"
    by simp
  show ?thesis
    using d m generateSignature_insertion_order [OF d m] by blast
qed

lemma toLowerCase_idem: "toLowerCase (toLowerCase s) = toLowerCase s"
proof -
  have "toLowerCase_char (toLowerCase_char c) = toLowerCase_char c" for c
    by (simp add: toLowerCase_char_def)
  then show ?thesis by (simp add: toLowerCase_def)
qed

lemma toLowerCase_toUpperCase: "toLowerCase (toUpperCase s) = toLowerCase s"
proof -
  have "toLowerCase_char (toUpperCase_char c) = toLowerCase_char c" for c
    by (auto simp add: toLowerCase_char_def toUpperCase_char_def)
  then show ?thesis by (simp add: toLowerCase_def toUpperCase_def)
qed

lemma generateSignature_lower:
  "generateSignature render params token = Inr d \<Longrightarrow> toLowerCase d = d"
  by (auto simp: generateSignature_def Let_def toLowerCase_idem split: option.splits)

text \<open>C7: \<^verbatim>\<open>verifySignature\<close> accepts the digest that \<^verbatim>\<open>generateSignature\<close> returns for
  the same parameters and secret, and it compares without regard to case: it accepts that
  digest written in uppercase too.\<close>

theorem verifySignature_accepts_own_digest:
  assumes "generateSignature render params token = Inr d"
  shows "verifySignature render params token (JStr d) = Inr True
       \<and> verifySignature render params token (JStr (toUpperCase d)) = Inr True"
  using assms generateSignature_lower [OF assms]
  by (simp add: verifySignature_def toLowerCase_toUpperCase)

theorem verifySignature_accepts_own_digest_witness:
  "generateSignature (Number_render example_runtime) (callback_fields (JNum (Finite 2)))
       (Some ''secret'') = Inr ''6d04ca69051da2f65c62bd8b0963dc2e''
   \<and> verifySignature (Number_render example_runtime) (callback_fields (JNum (Finite 2)))
       (Some ''secret'') (JStr ''6d04ca69051da2f65c62bd8b0963dc2e'') = Inr True
   \<and> verifySignature (Number_render example_runtime) (callback_fields (JNum (Finite 2)))
       (Some ''secret'') (JStr ''6D04CA69051DA2F65C62BD8B0963DC2E'') = Inr True"
proof -
  have u: "toUpperCase ''6d04ca69051da2f65c62bd8b0963dc2e'' = ''6D04CA69051DA2F65C62BD8B0963DC2E''"
    by (simp add: toUpperCase_def toUpperCase_char_def char_of_def bit_0)
  show ?thesis
    using verifySignature_accepts_own_digest
            [OF digest_completed [of "Number_render example_runtime"]]
          digest_completed [of "Number_render example_runtime"]
    by (simp add: u)
qed

section \<open>The callback handler\<close>

lemma verifies_fetch: "verifies (rt\<lparr>fetch := f\<rparr>) env body = verifies rt env body"
  by (simp add: verifies_def)

lemma db_log [simp]: "db (log e w) = db w"
  by (simp add: log_def)

lemma db_send [simp]: "db (send r w) = db w"
  by (simp add: send_def)

lemma outbox_log [simp]: "outbox (log e w) = outbox w"
  by (simp add: log_def)

lemma db_updatePaymentRecord:
  "db (updatePaymentRecord env orderId updates w) =
     (case d1_run (DB env) UPDATE_payment_records
             [get_prop updates ''status'', get_prop updates ''block_transaction_id'',
              get_prop updates ''actual_amount'', get_prop updates ''updated_at'', orderId] (db w) of
        Inl e \<Rightarrow> db w | Inr d \<Rightarrow> d)"
  by (simp add: updatePaymentRecord_def split: sum.splits)

lemma outbox_updatePaymentRecord [simp]:
  "outbox (updatePaymentRecord env orderId updates w) = outbox w"
  by (simp add: updatePaymentRecord_def split: sum.splits)

lemma generateSignature_error:
  "generateSignature render params token = Inl e \<Longrightarrow> e = TypeError"
  by (auto simp: generateSignature_def Let_def split: option.splits)



text \<open>A signature that is a string and differs from the digest is answered 400.\<close>

lemma notify_mismatch:
  assumes "req_json request = Inr body" "\<not> nullish body"
    and "field body ''signature'' = JStr s"
    and "generateSignature (Number_render rt) (verifyParams body) (BEPUSDT_API_TOKEN env) = Inr d"
    and "d \<noteq> toLowerCase s"
  shows "handlePaymentNotify rt env request now w
           = (Response (Text msg_signature_error) 400 [],
              log Signature_check_failed (log (Received_callback body) w))"
  using assms
  by (simp add: handlePaymentNotify_def notify_try_def verifySignature_def Let_def)

text \<open>A signature that is no string is answered 500: \<^verbatim>\<open>signature.toLowerCase()\<close> throws and
  the handler's \<^verbatim>\<open>catch\<close> answers.\<close>

lemma notify_signature_not_string:
  assumes "req_json request = Inr body" "\<not> nullish body"
    and "\<forall>s. field body ''signature'' \<noteq> JStr s"
  shows "handlePaymentNotify rt env request now w
           = (Response (Text ''error'') 500 [],
              log (Handle_callback_error TypeError) (log (Received_callback body) w))"
proof -
  have "verifySignature (Number_render rt) (verifyParams body) (BEPUSDT_API_TOKEN env)
          (field body ''signature'') = Inl TypeError"
    using assms(3)
    by (cases "field body ''signature''")
       (auto simp: verifySignature_def dest: generateSignature_error split: sum.splits)
  then show ?thesis
    using assms(1,2) by (simp add: handlePaymentNotify_def notify_try_def Let_def)
qed

text \<open>A callback that verifies is acknowledged, and the stored orders are what the
  \<^verbatim>\<open>UPDATE\<close> statement leaves, or unchanged when the statement throws.\<close>

lemma notify_verified:
  assumes "req_json request = Inr body" "verifies rt env body"
  shows "fst (handlePaymentNotify rt env request now w) = Response (Text ''ok'') 200 []"
    and "db (snd (handlePaymentNotify rt env request now w)) =
           (case d1_run (DB env) UPDATE_payment_records (update_args body now) (db w) of
              Inl e \<Rightarrow> db w | Inr d \<Rightarrow> d)"
  using assms
  by (auto simp: handlePaymentNotify_def notify_try_def verifies_def Let_def
                 db_updatePaymentRecord update_args_def get_prop_def
           split: sum.splits option.splits)


lemma payment_db_update [simp]:
  "d1_run payment_db UPDATE_payment_records args st = sql_update args st"
  by (simp add: payment_db_def)

lemma sql_update_accepted:
  assumes "those (map to_sql args) = Some [s, b, a, u, oid]"
  shows "sql_update args st =
           Inr (map (\<lambda>r. if oid \<noteq> JNull \<and> pr_order_id r = oid
                          then r\<lparr>pr_status := s, pr_block_transaction_id := b,
                                 pr_actual_amount := a, pr_updated_at := u\<rparr>
                          else r) st)"
  using assms by (simp add: sql_update_def)





lemma update_args_created:
  "those (map to_sql (update_args callback_created now))
     = Some [JNum (Finite 1), JStr ''0xabc'', JStr ''10.50'', JNum (Finite (of_int now)),
             JStr ''ORD1001'']"
  by (simp add: update_args_def callback_created_def body_eval or_else_def)


lemma apply_created:
  assumes "db w = [stored_order s u]"
  shows "db (snd (handlePaymentNotify rt example_env (post callback_created) now w))
           = [stored_order (JNum (Finite 1)) (JNum (Finite (of_int now)))]"
proof -
  have "req_json (post callback_created) = Inr callback_created" by (simp add: post_def)
  from notify_verified(2) [OF this verifies_created, of rt now w]
  show ?thesis
    using assms
    by (simp add: example_env_def sql_update_accepted [OF update_args_created]
          stored_order_def)
qed

text \<open>C1: a callback whose signature does not verify is to be answered 400, with no write to
  the stored orders. The handler writes nothing, but where the body carries no signature (or
  one that is no string) the answer is \<^verbatim>\<open>error\<close> with status 500, not 400: the scenario's
  completion callback without its \<^verbatim>\<open>signature\<close> field, in any environment.\<close>

theorem unsigned_callback_answered_500:
  "handlePaymentNotify rt env (post callback_unsigned) now w
     = (Response (Text ''error'') 500 [],
        log (Handle_callback_error TypeError) (log (Received_callback callback_unsigned) w))"
proof -
  have s: "field callback_unsigned ''signature'' = JUndefined"
    by (simp add: callback_unsigned_def body_eval)
  have n: "\<not> nullish callback_unsigned"
    by (simp add: callback_unsigned_def nullish_def)
  have "verifySignature (Number_render rt) (verifyParams callback_unsigned)
          (BEPUSDT_API_TOKEN env) JUndefined = Inl TypeError"
    by (auto simp: verifySignature_def dest: generateSignature_error split: sum.splits)
  then show ?thesis
    by (simp add: handlePaymentNotify_def notify_try_def post_def Let_def s n)
qed

text \<open>C2: the stored status does not advance monotonically. A callback that verifies
  overwrites the status of every stored order with its \<^verbatim>\<open>order_id\<close>, whatever the status
  was, when the store accepts the values bound (\<open>s\<close> is the stored form of the callback's
  status, \<open>oid\<close> of its \<^verbatim>\<open>order_id\<close>); the other orders stay as they are.\<close>

theorem callback_overwrites_status:
  assumes "DB env = payment_db" and "req_json request = Inr body" and "verifies rt env body"
    and "those (map to_sql (update_args body now)) = Some [s, b, a, u, oid]"
  shows "list_all2 (\<lambda>r r'. if oid \<noteq> JNull \<and> pr_order_id r = oid
                             then pr_status r' = s \<and> pr_order_id r' = pr_order_id r
                             else r' = r)
           (db w) (db (snd (handlePaymentNotify rt env request now w)))"
  using assms
  by (simp add: notify_verified(2) sql_update_accepted list_all2_map2 list_all2_same)

theorem callback_overwrites_status_witness:
  "DB example_env = payment_db
   \<and> req_json (post callback_created) = Inr callback_created
   \<and> verifies example_runtime example_env callback_created
   \<and> those (map to_sql (update_args callback_created 2000))
       = Some [JNum (Finite 1), JStr ''0xabc'', JStr ''10.50'', JNum (Finite 2000), JStr ''ORD1001'']
   \<and> list_all2 (\<lambda>r r'. if JStr ''ORD1001'' \<noteq> JNull \<and> pr_order_id r = JStr ''ORD1001''
                          then pr_status r' = JNum (Finite 1) \<and> pr_order_id r' = pr_order_id r
                          else r' = r)
        (db (example_world [stored_order (JNum (Finite 2)) (JNum (Finite 1000))]))
        (db (snd (handlePaymentNotify example_runtime example_env (post callback_created) 2000
               (example_world [stored_order (JNum (Finite 2)) (JNum (Finite 1000))]))))"
proof -
  have 1: "DB example_env = payment_db" by (simp add: example_env_def)
  have 2: "req_json (post callback_created) = Inr callback_created" by (simp add: post_def)
  have 4: "those (map to_sql (update_args callback_created 2000))
       = Some [JNum (Finite 1), JStr ''0xabc'', JStr ''10.50'', JNum (Finite 2000), JStr ''ORD1001'']"
    using update_args_created [of 2000] by simp
  show ?thesis
    using 1 2 verifies_created [of example_runtime] 4
          callback_overwrites_status [OF 1 2 verifies_created 4]
    by blast
qed

text \<open>The order ORD1001 is stored as completed (2); the callback with status 1, validly
  signed, sets it back to created (1).\<close>

theorem stale_callback_resets_status:
  "pr_status (stored_order (JNum (Finite 2)) (JNum (Finite 1000))) = JNum (Finite 2)
   \<and> verifies example_runtime example_env callback_created
   \<and> map pr_status (db (snd (handlePaymentNotify example_runtime example_env
        (post callback_created) 2000
        (example_world [stored_order (JNum (Finite 2)) (JNum (Finite 1000))]))))
      = [JNum (Finite 1)]"
  using apply_created [of "example_world [stored_order (JNum (Finite 2)) (JNum (Finite 1000))]"
          "JNum (Finite 2)" "JNum (Finite 1000)" example_runtime 2000]
        verifies_created [of example_runtime]
  by (simp add: example_world_def stored_order_def)







text \<open>C8: a callback whose signature verifies is answered \<^verbatim>\<open>ok\<close> with status 200 whatever
  the outbound call to the manager does, \<open>f\<close> being any behaviour of \<^verbatim>\<open>fetch\<close>.\<close>

theorem ack_whatever_the_notifier:
  assumes "req_json request = Inr body" and "verifies rt env body"
  shows "fst (handlePaymentNotify (rt\<lparr>fetch := f\<rparr>) env request now w)
           = Response (Text ''ok'') 200 []"
  using assms notify_verified(1) [of request body "rt\<lparr>fetch := f\<rparr>" env now w]
  by (simp add: verifies_fetch)

theorem ack_whatever_the_notifier_witness:
  "req_json (post callback_completed) = Inr callback_completed
   \<and> verifies example_runtime example_env callback_completed
   \<and> fetch (example_runtime\<lparr>fetch := \<lambda>req. Inl NetworkError\<rparr>)
        (manager_request ''https://manager.example/api/payment/notify'' callback_completed)
       = Inl NetworkError
   \<and> fst (handlePaymentNotify (example_runtime\<lparr>fetch := \<lambda>req. Inl NetworkError\<rparr>) example_env
            (post callback_completed) 1000 (example_world [stored_order (JNum (Finite 1)) JNull]))
       = Response (Text ''ok'') 200 []"
proof -
  have 1: "req_json (post callback_completed) = Inr callback_completed" by (simp add: post_def)
  show ?thesis
    using 1 verifies_completed [of example_runtime]
          ack_whatever_the_notifier [OF 1 verifies_completed]
    by simp
qed

section \<open>The creation handler\<close>

text \<open>A request whose body has fields (any JSON value but \<^verbatim>\<open>null\<close>) and whose
  \<^verbatim>\<open>order_id\<close> or \<^verbatim>\<open>amount\<close> is absent or empty is answered \<^verbatim>\<open>success: false\<close> with
  status 400, and the world is as it was: no request was sent, no order was stored, nothing was
  logged.\<close>

lemma create_rejects_missing_parameters:
  assumes "req_json request = Inr body" and "\<not> nullish body"
    and "absent_or_empty (field body ''order_id'') \<or> absent_or_empty (field body ''amount'')"
  shows "handleCreatePayment rt env request now w = (missing_parameters, w)"
  using assms
  by (auto simp: handleCreatePayment_def create_try_def Let_def absent_or_empty_def
                 missing_parameters_def)

text \<open>The specification's scenario D, a request without \<^verbatim>\<open>amount\<close>.\<close>

lemma create_without_amount:
  "handleCreatePayment example_runtime example_env (post (JObj [(''order_id'', JStr ''ORD1001'')]))
        1000 (example_world [])
     = (missing_parameters, example_world [])"
proof -
  have 1: "req_json (post (JObj [(''order_id'', JStr ''ORD1001'')])) = Inr (JObj [(''order_id'', JStr ''ORD1001'')])"
    by (simp add: post_def)
  have 2: "\<not> nullish (JObj [(''order_id'', JStr ''ORD1001'')])"
    by (simp add: nullish_def)
  have 3: "absent_or_empty (field (JObj [(''order_id'', JStr ''ORD1001'')]) ''amount'')"
    by (simp add: absent_or_empty_def field_def get_prop_def)
  show ?thesis
    using create_rejects_missing_parameters [OF 1 2 disjI2 [OF 3]] .
qed

text \<open>C9: a creation request whose \<^verbatim>\<open>order_id\<close> or \<^verbatim>\<open>amount\<close> is absent or empty is to be
  answered \<^verbatim>\<open>success: false\<close> with status 400, with no side effect. The body \<^verbatim>\<open>null\<close> has
  neither field: the destructuring of the body throws, and the answer is the one of the
  handler's \<^verbatim>\<open>catch\<close>, status 500 with the message of the TypeError, which is logged; no
  request is sent and no order is stored.\<close>

theorem null_creation_answered_500:
  "handleCreatePayment rt env (post JNull) now w
     = (Response (Json (JObj [(''success'', JBool False),
                             (''error'', JStr (error_message rt TypeError))]))
          500 corsHeaders,
        log (Create_payment_error TypeError) w)"
  by (simp add: handleCreatePayment_def create_try_def post_def nullish_def)

section \<open>The status query\<close>

text \<open>C10: when the lookup throws, the status query answers as for an unknown
  \<^verbatim>\<open>trade_id\<close>: not found, status 404, the same as when the lookup returns no row; the
  answer with status 500 is not given.\<close>

theorem query_lookup_failure_is_not_found:
  assumes "d1_first (DB env) SELECT_payment_records_by_trade_id [JStr tradeId] (db w) = Inl e"
  shows "handleQueryStatus rt env tradeId w = (not_found, w)
       \<and> handleQueryStatus rt env tradeId w
           = handleQueryStatus rt (env\<lparr>DB := (DB env)\<lparr>d1_first := \<lambda>stmt args st. Inr JNull\<rparr>\<rparr>)
               tradeId w"
  using assms
  by (simp add: handleQueryStatus_def query_try_def getPaymentRecordByTradeId_def not_found_def)

theorem query_lookup_failure_is_not_found_witness:
  "d1_first (DB (example_env\<lparr>DB := \<lparr>d1_run = \<lambda>stmt args st. Inl D1_ERROR,
                                     d1_first = \<lambda>stmt args st. Inl D1_ERROR\<rparr>\<rparr>))
      SELECT_payment_records_by_trade_id [JStr ''T1'']
      (db (example_world [stored_order (JNum (Finite 1)) JNull])) = Inl D1_ERROR
   \<and> handleQueryStatus example_runtime
        (example_env\<lparr>DB := \<lparr>d1_run = \<lambda>stmt args st. Inl D1_ERROR,
                             d1_first = \<lambda>stmt args st. Inl D1_ERROR\<rparr>\<rparr>)
        ''T1'' (example_world [stored_order (JNum (Finite 1)) JNull])
       = (not_found, example_world [stored_order (JNum (Finite 1)) JNull])"
proof -
  let ?env = "example_env\<lparr>DB := \<lparr>d1_run = \<lambda>stmt args st. Inl D1_ERROR,
                                   d1_first = \<lambda>stmt args st. Inl D1_ERROR\<rparr>\<rparr>"
  have 1: "d1_first (DB ?env) SELECT_payment_records_by_trade_id [JStr ''T1'']
             (db (example_world [stored_order (JNum (Finite 1)) JNull])) = Inl D1_ERROR"
    by simp
  show ?thesis
    using 1 query_lookup_failure_is_not_found [OF 1, of example_runtime]
    by blast
qed

end
